theory Spec2Isabelle
  imports Complex_Main "HOL-Library.AList" "HOL-Library.Sublist" "HOL-Library.Multiset"
begin

section \<open>JavaScript numbers\<close>

text \<open>
  A JavaScript number is a finite value, one of the two infinities, or NaN. The finite
  values are modelled as reals. The operations of this section are exact: they are used
  for the scores, the midpoint and the comparators, where the results are results about
  the exact formula the source writes. The operations of \<open>calculateDistance\<close> are
  rounded, see the next section. Overflow to an infinity and the sign of zero are not
  modelled. A property that an object does not have reads as \<open>undefined\<close>, which every
  arithmetic operator converts to NaN; the numeric fields of the model hold \<open>NaN\<close> for
  such a property.
\<close>

datatype jsnum = Num real | PInf | NInf | NaN

fun js_neg :: "jsnum \<Rightarrow> jsnum" where
  "js_neg (Num a) = Num (- a)"
| "js_neg PInf = NInf"
| "js_neg NInf = PInf"
| "js_neg NaN = NaN"

fun js_add :: "jsnum \<Rightarrow> jsnum \<Rightarrow> jsnum" where
  "js_add (Num a) (Num b) = Num (a + b)"
| "js_add NaN _ = NaN"
| "js_add _ NaN = NaN"
| "js_add PInf NInf = NaN"
| "js_add NInf PInf = NaN"
| "js_add PInf _ = PInf"
| "js_add _ PInf = PInf"
| "js_add NInf _ = NInf"
| "js_add _ NInf = NInf"

definition js_sub :: "jsnum \<Rightarrow> jsnum \<Rightarrow> jsnum" where
  "js_sub a b = js_add a (js_neg b)"

fun js_mul :: "jsnum \<Rightarrow> jsnum \<Rightarrow> jsnum" where
  "js_mul (Num a) (Num b) = Num (a * b)"
| "js_mul NaN _ = NaN"
| "js_mul _ NaN = NaN"
| "js_mul (Num a) i = (if a = 0 then NaN else if 0 < a then i else js_neg i)"
| "js_mul i (Num b) = (if b = 0 then NaN else if 0 < b then i else js_neg i)"
| "js_mul PInf i = i"
| "js_mul NInf i = js_neg i"

text \<open>Division: a finite non-zero number over zero is an infinity, zero over zero is NaN.\<close>

fun js_div :: "jsnum \<Rightarrow> jsnum \<Rightarrow> jsnum" where
  "js_div (Num a) (Num b) =
     (if b = 0 then (if a = 0 then NaN else if 0 < a then PInf else NInf)
      else Num (a / b))"
| "js_div NaN _ = NaN"
| "js_div _ NaN = NaN"
| "js_div (Num a) _ = Num 0"
| "js_div PInf (Num b) = (if 0 \<le> b then PInf else NInf)"
| "js_div NInf (Num b) = (if 0 \<le> b then NInf else PInf)"
| "js_div PInf PInf = NaN"
| "js_div PInf NInf = NaN"
| "js_div NInf PInf = NaN"
| "js_div NInf NInf = NaN"

section \<open>The engine's floating-point arithmetic\<close>

text \<open>
  In \<open>calculateDistance\<close> the rounding decides whether the result is a number at all:
  the Haversine quantity \<open>a\<close> is mathematically in \<open>[0, 1]\<close>, and as a double it can
  come out above \<open>1\<close> (or, for a latitude beyond the poles, below \<open>0\<close>), and then a
  square root is NaN. So there every operation is modelled as the source's engine
  performs it: the exact result rounded to a double by \<open>round64\<close>, and \<open>Math.sin\<close>,
  \<open>Math.cos\<close>, \<open>Math.sqrt\<close>, \<open>Math.atan2\<close> as the engine approximates them. These five
  functions are a parameter of the model; nothing is assumed about them here.
\<close>

record engine =
  round64 :: "real \<Rightarrow> real"
  Math_sin :: "real \<Rightarrow> real"
  Math_cos :: "real \<Rightarrow> real"
  Math_sqrt :: "real \<Rightarrow> real"
  Math_atan2 :: "real \<Rightarrow> real \<Rightarrow> real"

text \<open>The result of an operation as a double: a finite result is rounded.\<close>

fun fl :: "engine \<Rightarrow> jsnum \<Rightarrow> jsnum" where
  "fl E (Num a) = Num (round64 E a)"
| "fl E PInf = PInf"
| "fl E NInf = NInf"
| "fl E NaN = NaN"

definition fl_add :: "engine \<Rightarrow> jsnum \<Rightarrow> jsnum \<Rightarrow> jsnum" where
  "fl_add E a b = fl E (js_add a b)"

definition fl_sub :: "engine \<Rightarrow> jsnum \<Rightarrow> jsnum \<Rightarrow> jsnum" where
  "fl_sub E a b = fl E (js_sub a b)"

definition fl_mul :: "engine \<Rightarrow> jsnum \<Rightarrow> jsnum \<Rightarrow> jsnum" where
  "fl_mul E a b = fl E (js_mul a b)"

definition fl_div :: "engine \<Rightarrow> jsnum \<Rightarrow> jsnum \<Rightarrow> jsnum" where
  "fl_div E a b = fl E (js_div a b)"

text \<open>\<open>Math.PI\<close>, the double next to \<open>pi\<close>.\<close>

definition js_PI :: "engine \<Rightarrow> jsnum" where
  "js_PI E = Num (round64 E pi)"

text \<open>\<open>Math.sin\<close> and \<open>Math.cos\<close>: NaN outside the finite numbers.\<close>

fun js_sin :: "engine \<Rightarrow> jsnum \<Rightarrow> jsnum" where
  "js_sin E (Num a) = Num (Math_sin E a)"
| "js_sin E _ = NaN"

fun js_cos :: "engine \<Rightarrow> jsnum \<Rightarrow> jsnum" where
  "js_cos E (Num a) = Num (Math_cos E a)"
| "js_cos E _ = NaN"

text \<open>\<open>Math.sqrt\<close>: NaN below zero.\<close>

fun js_sqrt :: "engine \<Rightarrow> jsnum \<Rightarrow> jsnum" where
  "js_sqrt E (Num a) = (if a < 0 then NaN else Num (Math_sqrt E a))"
| "js_sqrt E PInf = PInf"
| "js_sqrt E _ = NaN"

text \<open>\<open>Math.atan2(y, x)\<close>, with the values that the language fixes at the infinities.\<close>

fun js_atan2 :: "engine \<Rightarrow> jsnum \<Rightarrow> jsnum \<Rightarrow> jsnum" where
  "js_atan2 E (Num y) (Num x) = Num (Math_atan2 E y x)"
| "js_atan2 E NaN _ = NaN"
| "js_atan2 E _ NaN = NaN"
| "js_atan2 E (Num y) PInf = Num 0"
| "js_atan2 E (Num y) NInf = (if 0 \<le> y then Num (round64 E pi) else Num (- round64 E pi))"
| "js_atan2 E PInf (Num x) = Num (round64 E (pi / 2))"
| "js_atan2 E NInf (Num x) = Num (- round64 E (pi / 2))"
| "js_atan2 E PInf PInf = Num (round64 E (pi / 4))"
| "js_atan2 E PInf NInf = Num (round64 E (3 * pi / 4))"
| "js_atan2 E NInf PInf = Num (- round64 E (pi / 4))"
| "js_atan2 E NInf NInf = Num (- round64 E (3 * pi / 4))"

text \<open>
  The mathematical \<open>atan2\<close>, the angle of the point \<open>(x, y)\<close> in \<open>(-pi, pi]\<close>: what an
  engine without rounding error computes.
\<close>

definition atan2 :: "real \<Rightarrow> real \<Rightarrow> real" where
  "atan2 y x =
     (if 0 < x then arctan (y / x)
      else if x < 0 then (if 0 \<le> y then arctan (y / x) + pi else arctan (y / x) - pi)
      else if 0 < y then pi / 2
      else if y < 0 then - (pi / 2)
      else 0)"

section \<open>Sorting\<close>

text \<open>
  \<open>Array.prototype.sort(comparefn)\<close>. The comparator's result \<open>v\<close> is used through
  its sign, and NaN counts as zero: an element moves behind another only when the
  comparator says \<open>v > 0\<close>. The sort is stable. The model is the stable insertion sort;
  for a comparator that is a consistent order every conforming sort returns this list.
\<close>

fun js_gt0 :: "jsnum \<Rightarrow> bool" where
  "js_gt0 (Num v) = (0 < v)"
| "js_gt0 PInf = True"
| "js_gt0 _ = False"

fun js_insert :: "('a \<Rightarrow> 'a \<Rightarrow> jsnum) \<Rightarrow> 'a \<Rightarrow> 'a list \<Rightarrow> 'a list" where
  "js_insert cmp x [] = [x]"
| "js_insert cmp x (y # ys) =
     (if js_gt0 (cmp x y) then y # js_insert cmp x ys else x # y # ys)"

fun js_sort :: "('a \<Rightarrow> 'a \<Rightarrow> jsnum) \<Rightarrow> 'a list \<Rightarrow> 'a list" where
  "js_sort cmp [] = []"
| "js_sort cmp (x # xs) = js_insert cmp x (js_sort cmp xs)"

section \<open>Configuration\<close>

text \<open>The \<open>ALGORITHM\<close> section of \<open>CONFIG\<close>.\<close>

definition BALANCE_WEIGHT :: real where
  "BALANCE_WEIGHT = 3 / 10"

definition MAX_RESULTS :: nat where
  "MAX_RESULTS = 5"

definition SEARCH_RADIUS :: real where
  "SEARCH_RADIUS = 3000"

definition MAX_CANDIDATES :: nat where
  "MAX_CANDIDATES = 10"

section \<open>Data\<close>

text \<open>
  A coordinate object \<open>{lng, lat}\<close>. The client reads only these two properties of
  the objects it is given. The \<open>formattedAddress\<close> that \<open>geocode\<close> adds is read
  nowhere in the pipeline and is left out.
\<close>

record location =
  lng :: jsnum
  lat :: jsnum

definition coords :: "'a location_scheme \<Rightarrow> location" where
  "coords l = \<lparr>lng = lng l, lat = lat l\<rparr>"

text \<open>\<open>{address: startAddress, ...startLocation}\<close> in the result of the pipeline.\<close>

record place = location +
  address :: string

text \<open>
  The result of \<open>getTransitRoute\<close>. Its numeric fields are \<open>parseInt(...) || 0\<close>, so
  they are finite numbers, never NaN. \<open>allSubwayStations\<close> is \<open>None\<close> when
  \<open>segments && segments.allSubwayStations\<close> is falsy.
\<close>

record route =
  duration :: real
  walking_distance :: real
  distance :: real
  cost :: real
  allSubwayStations :: "string list option"

datatype source = Route | Nearby | Endpoint

text \<open>
  A station object. \<open>searchNearbySubwayStations\<close> returns
  \<open>{name, address, lng, lat, distance}\<close>; the candidate collector adds \<open>source\<close>, and
  \<open>distanceToMid\<close> when it prunes. A candidate taken from the main route is only
  \<open>{name, source}\<close>: it has no coordinates, no address and no distance.
\<close>

record station = location +
  name :: string
  address :: "string option"
  distance :: "real option"
  source :: "source option"
  distanceToMid :: "jsnum option"

text \<open>
  The station with its two routes, as \<open>calculateTravelTimes\<close> returns it. The times and
  distances are the \<open>duration\<close> and \<open>distance\<close> of the two routes, so they are finite
  numbers.
\<close>

record timed = station +
  timeFromStart :: real
  timeToEnd :: real
  distanceFromStart :: real
  distanceToEnd :: real
  routeFromStart :: route
  routeToEnd :: route

text \<open>The timed station with its score, as \<open>rankStations\<close> returns it.\<close>

record scored = timed +
  maxTime :: real
  timeDiff :: real
  totalTime :: real
  score :: real
  balanceScore :: jsnum

text \<open>
  A thrown \<open>Error\<close>. \<open>ApiError\<close> is an error of the map client, with its message.
  \<open>NoCandidatesFound\<close> is the error that \<open>findMiddleStations\<close> creates itself when the
  candidate list is empty; its message says that no suitable subway station candidate
  was found.
\<close>

datatype error = ApiError string | NoCandidatesFound

text \<open>
  The map client. Each call either resolves to a value or rejects with an error. The
  answers of the service are a parameter of the model, a function of the arguments of
  the call.
\<close>

record api =
  geocode :: "string \<Rightarrow> error + location"
  getTransitRoute :: "location \<Rightarrow> location \<Rightarrow> error + route"
  searchNearbySubwayStations :: "location \<Rightarrow> real \<Rightarrow> error + station list"

text \<open>
  The \<open>StationFinder\<close> object: the client and the balance weight, together with the
  engine that runs its methods (the global \<open>Math\<close> and the rounding of doubles).
\<close>

record finder =
  api :: api
  balanceWeight :: real
  engine :: engine

definition StationFinder :: "engine \<Rightarrow> api \<Rightarrow> finder" where
  "StationFinder E a = \<lparr>api = a, balanceWeight = BALANCE_WEIGHT, engine = E\<rparr>"

section \<open>Scoring and ranking\<close>

text \<open>The callback of \<open>stations.map\<close> in \<open>rankStations\<close>.\<close>

definition scoreStation :: "finder \<Rightarrow> timed \<Rightarrow> scored" where
  "scoreStation this st =
     (let maxTime = max (timeFromStart st) (timeToEnd st);
          timeDiff = \<bar>timeFromStart st - timeToEnd st\<bar>;
          totalTime = timeFromStart st + timeToEnd st;
          score = maxTime + timeDiff * balanceWeight this
      in timed.extend st
           (scored.fields maxTime timeDiff totalTime score
              (js_sub (Num 100) (js_mul (js_div (Num timeDiff) (Num maxTime)) (Num 100)))))"

definition rankStations :: "finder \<Rightarrow> timed list \<Rightarrow> scored list" where
  "rankStations this stations =
     js_sort (\<lambda>a b. js_sub (Num (score a)) (Num (score b)))
       (map (scoreStation this) stations)"

section \<open>Geometry\<close>

definition calculateMidpoint :: "'a location_scheme \<Rightarrow> 'b location_scheme \<Rightarrow> location" where
  "calculateMidpoint loc1 loc2 =
     \<lparr>lng = js_div (js_add (lng loc1) (lng loc2)) (Num 2),
      lat = js_div (js_add (lat loc1) (lat loc2)) (Num 2)\<rparr>"

text \<open>
  The Haversine formula, operator by operator as the source writes it, each operation
  rounded by the engine.
\<close>

definition calculateDistance ::
  "finder \<Rightarrow> 'a location_scheme \<Rightarrow> 'b location_scheme \<Rightarrow> jsnum" where
  "calculateDistance this loc1 loc2 =
     (let E = engine this;
          R = Num 6371000;
          lat1 = fl_div E (fl_mul E (lat loc1) (js_PI E)) (Num 180);
          lat2 = fl_div E (fl_mul E (lat loc2) (js_PI E)) (Num 180);
          deltaLat = fl_div E (fl_mul E (fl_sub E (lat loc2) (lat loc1)) (js_PI E)) (Num 180);
          deltaLng = fl_div E (fl_mul E (fl_sub E (lng loc2) (lng loc1)) (js_PI E)) (Num 180);
          a = fl_add E
                (fl_mul E (js_sin E (fl_div E deltaLat (Num 2)))
                          (js_sin E (fl_div E deltaLat (Num 2))))
                (fl_mul E
                   (fl_mul E (fl_mul E (js_cos E lat1) (js_cos E lat2))
                             (js_sin E (fl_div E deltaLng (Num 2))))
                   (js_sin E (fl_div E deltaLng (Num 2))));
          c = fl_mul E (Num 2) (js_atan2 E (js_sqrt E a) (js_sqrt E (fl_sub E (Num 1) a)))
      in fl_mul E R c)"

section \<open>Candidate collection\<close>

text \<open>
  \<open>candidateSet\<close> is a \<open>Map\<close>: an association list in insertion order. \<open>set\<close> on a
  key that is present replaces the value in place, on a new key it appends
  (\<open>AList.update\<close>); \<open>values()\<close> lists the values in insertion order.
\<close>

definition map_has :: "('k \<times> 'v) list \<Rightarrow> 'k \<Rightarrow> bool" where
  "map_has m k = (map_of m k \<noteq> None)"

definition map_set :: "'k \<Rightarrow> 'v \<Rightarrow> ('k \<times> 'v) list \<Rightarrow> ('k \<times> 'v) list" where
  "map_set k v m = AList.update k v m"

definition map_values :: "('k \<times> 'v) list \<Rightarrow> 'v list" where
  "map_values m = map snd m"

text \<open>Strategy 1: \<open>{ name: stationName, source: 'route' }\<close> for each name of the route.\<close>

definition routeCandidate :: "string \<Rightarrow> station" where
  "routeCandidate stationName =
     \<lparr>lng = NaN, lat = NaN, name = stationName, address = None, distance = None,
      source = Some Route, distanceToMid = None\<rparr>"

definition addRoute :: "string \<Rightarrow> (string \<times> station) list \<Rightarrow> (string \<times> station) list" where
  "addRoute stationName candidateSet = map_set stationName (routeCandidate stationName) candidateSet"

text \<open>Strategies 2 and 3: \<open>{...station, source}\<close> unless the name is in the map.\<close>

definition addFound :: "source \<Rightarrow> station \<Rightarrow> (string \<times> station) list \<Rightarrow> (string \<times> station) list" where
  "addFound src st candidateSet =
     (if \<not> map_has candidateSet (name st)
      then map_set (name st) (st\<lparr>source := Some src\<rparr>) candidateSet
      else candidateSet)"

text \<open>\<open>a.distanceToMid\<close> in the comparator: an absent property is NaN in a subtraction.\<close>

definition toNumber :: "jsnum option \<Rightarrow> jsnum" where
  "toNumber v = (case v of None \<Rightarrow> NaN | Some x \<Rightarrow> x)"

definition pruneCandidates :: "finder \<Rightarrow> location \<Rightarrow> station list \<Rightarrow> station list" where
  "pruneCandidates this midPoint candidates =
     (if length candidates > MAX_CANDIDATES
      then take MAX_CANDIDATES
             (js_sort (\<lambda>a b. js_sub (toNumber (distanceToMid a)) (toNumber (distanceToMid b)))
                (map (\<lambda>st. st\<lparr>distanceToMid := Some (calculateDistance this st midPoint)\<rparr>)
                   candidates))
      else candidates)"

definition extractCandidateStations ::
  "finder \<Rightarrow> location \<Rightarrow> location \<Rightarrow> route \<Rightarrow> error + station list" where
  "extractCandidateStations this startLocation endLocation mainRoute =
     (let candidateSet1 =
            (case allSubwayStations mainRoute of
               Some names \<Rightarrow> fold addRoute names []
             | None \<Rightarrow> []);
          midPoint = calculateMidpoint startLocation endLocation
      in case searchNearbySubwayStations (api this) midPoint SEARCH_RADIUS of
           Inl e \<Rightarrow> Inl e
         | Inr nearbyStations \<Rightarrow>
             (let candidateSet2 = fold (addFound Nearby) nearbyStations candidateSet1
              in case searchNearbySubwayStations (api this) startLocation 2000 of
                   Inl e \<Rightarrow> Inl e
                 | Inr startNearby \<Rightarrow>
                     (case searchNearbySubwayStations (api this) endLocation 2000 of
                        Inl e \<Rightarrow> Inl e
                      | Inr endNearby \<Rightarrow>
                          (let candidateSet3 =
                                 fold (addFound Endpoint) (startNearby @ endNearby) candidateSet2;
                               candidates = map_values candidateSet3
                           in Inr (pruneCandidates this midPoint candidates)))))"

section \<open>Travel times\<close>

text \<open>
  The callback of \<open>batch.map\<close>: two route queries inside \<open>try\<close>; \<open>None\<close> is the
  \<open>null\<close> that the \<open>catch\<close> returns. The delays change no value.
\<close>

definition timeStation :: "finder \<Rightarrow> location \<Rightarrow> location \<Rightarrow> station \<Rightarrow> timed option" where
  "timeStation this startLocation endLocation st =
     (case getTransitRoute (api this) startLocation (coords st) of
        Inl e \<Rightarrow> None
      | Inr fromStart \<Rightarrow>
          (case getTransitRoute (api this) (coords st) endLocation of
             Inl e \<Rightarrow> None
           | Inr toEnd \<Rightarrow>
               Some (station.extend st
                 (timed.fields (duration fromStart) (duration toEnd)
                    (route.distance fromStart) (route.distance toEnd)
                    fromStart toEnd))))"

text \<open>\<open>xs.slice(i, j)\<close> for \<open>0 \<le> i \<le> j\<close>.\<close>

definition slice :: "'a list \<Rightarrow> nat \<Rightarrow> nat \<Rightarrow> 'a list" where
  "slice xs i j = take (j - i) (drop i xs)"

definition batchSize :: nat where
  "batchSize = 2"

text \<open>
  The \<open>for\<close> loop over the batches, with the loop variable \<open>i\<close> and the array
  \<open>results\<close> as arguments. \<open>Promise.all\<close> keeps the order of the batch.
\<close>

function calculateTravelTimes_loop ::
  "finder \<Rightarrow> location \<Rightarrow> location \<Rightarrow> station list \<Rightarrow> nat \<Rightarrow> timed list \<Rightarrow> timed list" where
  "calculateTravelTimes_loop this startLocation endLocation candidates i results =
     (if i < length candidates
      then (let batch = slice candidates i (i + batchSize);
                batchResults = map (timeStation this startLocation endLocation) batch
            in calculateTravelTimes_loop this startLocation endLocation candidates
                 (i + batchSize)
                 (results @ map the (filter (\<lambda>r. r \<noteq> None) batchResults)))
      else results)"
  by pat_completeness auto
termination
  by (relation "measure (\<lambda>(this, s, e, candidates, i, results). length candidates - i)")
     (auto simp: batchSize_def)

declare calculateTravelTimes_loop.simps [simp del]

definition calculateTravelTimes ::
  "finder \<Rightarrow> location \<Rightarrow> location \<Rightarrow> station list \<Rightarrow> timed list" where
  "calculateTravelTimes this startLocation endLocation candidates =
     calculateTravelTimes_loop this startLocation endLocation candidates 0 []"

section \<open>The pipeline\<close>

record result =
  startLocation :: place
  endLocation :: place
  mainRoute :: route
  recommendations :: "scored list"
  totalCandidates :: nat

text \<open>
  \<open>findMiddleStations\<close>. Each \<open>await\<close> that rejects leaves through the \<open>catch\<close>,
  which throws the same error again.
\<close>

definition findMiddleStations :: "finder \<Rightarrow> string \<Rightarrow> string \<Rightarrow> error + result" where
  "findMiddleStations this startAddress endAddress =
     (case geocode (api this) startAddress of
        Inl e \<Rightarrow> Inl e
      | Inr startLoc \<Rightarrow>
     (case geocode (api this) endAddress of
        Inl e \<Rightarrow> Inl e
      | Inr endLoc \<Rightarrow>
     (case getTransitRoute (api this) startLoc endLoc of
        Inl e \<Rightarrow> Inl e
      | Inr route \<Rightarrow>
     (case extractCandidateStations this startLoc endLoc route of
        Inl e \<Rightarrow> Inl e
      | Inr candidates \<Rightarrow>
          if length candidates = 0 then Inl NoCandidatesFound
          else
            (let stationsWithTime = calculateTravelTimes this startLoc endLoc candidates;
                 rankedStations = rankStations this stationsWithTime;
                 topStations = slice rankedStations 0 MAX_RESULTS
             in Inr \<lparr>startLocation = location.extend startLoc (place.fields startAddress),
                      endLocation = location.extend endLoc (place.fields endAddress),
                      mainRoute = route,
                      recommendations = topStations,
                      totalCandidates = length candidates\<rparr>)))))"

section \<open>Notions used to state the properties\<close>

text \<open>\<open>Number.isFinite\<close>: the number is neither NaN nor an infinity.\<close>

fun js_isFinite :: "jsnum \<Rightarrow> bool" where
  "js_isFinite (Num a) = True"
| "js_isFinite _ = False"

text \<open>
  What the proofs below use of an engine, each a property of rounding to the nearest
  double and of the \<open>Math\<close> functions of the engines in use: rounding and \<open>Math.sin\<close>
  are odd; rounding, \<open>Math.sqrt\<close> and \<open>Math.atan2\<close> give no negative result on
  arguments that are not negative; \<open>1\<close> is a double, and \<open>Math.sqrt(0)\<close>,
  \<open>Math.sqrt(1)\<close> and \<open>Math.atan2(0, 1)\<close> are exact. Nothing bounds the rounding
  error.
\<close>

definition regular :: "engine \<Rightarrow> bool" where
  "regular E =
     ((\<forall>x. round64 E (- x) = - round64 E x)
      \<and> (\<forall>x. Math_sin E (- x) = - Math_sin E x)
      \<and> (\<forall>x. 0 \<le> x \<longrightarrow> 0 \<le> round64 E x)
      \<and> (\<forall>x. 0 \<le> x \<longrightarrow> 0 \<le> Math_sqrt E x)
      \<and> (\<forall>y x. 0 \<le> y \<longrightarrow> 0 \<le> x \<longrightarrow> 0 \<le> Math_atan2 E y x)
      \<and> round64 E 1 = 1
      \<and> Math_sqrt E 0 = 0
      \<and> Math_sqrt E 1 = 1
      \<and> Math_atan2 E 0 1 = 0)"




text \<open>The map after the three strategies have run.\<close>

definition merged ::
  "string list \<Rightarrow> station list \<Rightarrow> station list \<Rightarrow> (string \<times> station) list" where
  "merged names nearby endpoint =
     fold (addFound Endpoint) endpoint (fold (addFound Nearby) nearby (fold addRoute names []))"


text \<open>The distance of a station to the midpoint as a real, where it is a finite number.\<close>

definition midKey :: "finder \<Rightarrow> location \<Rightarrow> station \<Rightarrow> real" where
  "midKey this mid st = (case calculateDistance this st mid of Num d \<Rightarrow> d | _ \<Rightarrow> 0)"

text \<open>Both route queries of a candidate resolve.\<close>

definition bothRoutes :: "finder \<Rightarrow> location \<Rightarrow> location \<Rightarrow> station \<Rightarrow> bool" where
  "bothRoutes this s e st =
     (\<not> isl (getTransitRoute (api this) s (coords st))
      \<and> \<not> isl (getTransitRoute (api this) (coords st) e))"

section \<open>Example data\<close>

text \<open>Concrete inputs on which the results below are evaluated.\<close>

text \<open>The engine without rounding error.\<close>

definition exactMath :: engine where
  "exactMath =
     \<lparr>round64 = (\<lambda>x. x), Math_sin = sin, Math_cos = cos, Math_sqrt = sqrt,
      Math_atan2 = atan2\<rparr>"

text \<open>An engine with an error: its cosine is too large by one part in a thousand.\<close>

definition overshootMath :: engine where
  "overshootMath =
     \<lparr>round64 = (\<lambda>x. x), Math_sin = sin, Math_cos = (\<lambda>x. cos x * (1001 / 1000)),
      Math_sqrt = sqrt, Math_atan2 = atan2\<rparr>"

definition exampleRoute :: "real \<Rightarrow> route" where
  "exampleRoute t =
     \<lparr>duration = t, walking_distance = 0, distance = 0, cost = 0, allSubwayStations = Some []\<rparr>"

definition exampleTimed :: "string \<Rightarrow> real \<Rightarrow> real \<Rightarrow> timed" where
  "exampleTimed n a b =
     \<lparr>lng = Num 0, lat = Num 0, name = n, address = Some [], distance = Some 0,
      source = Some Nearby, distanceToMid = None,
      timeFromStart = a, timeToEnd = b, distanceFromStart = 0, distanceToEnd = 0,
      routeFromStart = exampleRoute a, routeToEnd = exampleRoute b\<rparr>"

definition exampleApi :: api where
  "exampleApi =
     \<lparr>geocode = (\<lambda>a. Inr \<lparr>lng = Num 0, lat = Num 0\<rparr>),
      getTransitRoute = (\<lambda>p q. Inr (exampleRoute 0)),
      searchNearbySubwayStations = (\<lambda>p r. Inr [])\<rparr>"

text \<open>
  A client whose main route passes through the stations \<open>names\<close>, whose search around
  the midpoint finds \<open>found\<close> and whose endpoint searches find nothing. A route query
  with an endpoint that has no coordinates is rejected.
\<close>

definition routeThrough :: "string list \<Rightarrow> route" where
  "routeThrough names =
     \<lparr>duration = 1800, walking_distance = 500, distance = 9000, cost = 4,
      allSubwayStations = Some names\<rparr>"

definition routeOnlyApi :: "string list \<Rightarrow> station list \<Rightarrow> api" where
  "routeOnlyApi names found =
     \<lparr>geocode = (\<lambda>a. if a = ''A'' then Inr \<lparr>lng = Num 121, lat = Num 31\<rparr>
                      else Inr \<lparr>lng = Num 122, lat = Num 32\<rparr>),
      getTransitRoute = (\<lambda>p q. if js_isFinite (lng p) \<and> js_isFinite (lat p)
                                   \<and> js_isFinite (lng q) \<and> js_isFinite (lat q)
                                then Inr (routeThrough names)
                                else Inl (ApiError ''no route'')),
      searchNearbySubwayStations = (\<lambda>p r. if r = SEARCH_RADIUS then Inr found else Inr [])\<rparr>"

definition exampleStation :: "string \<Rightarrow> real \<Rightarrow> real \<Rightarrow> station" where
  "exampleStation n x y =
     \<lparr>lng = Num x, lat = Num y, name = n, address = Some ''Metro'', distance = Some 0,
      source = None, distanceToMid = None\<rparr>"

definition tenNames :: "string list" where
  "tenNames = [''R01'', ''R02'', ''R03'', ''R04'', ''R05'', ''R06'', ''R07'', ''R08'', ''R09'', ''R10'']"

section \<open>Properties of the numbers\<close>

lemma js_NaN_right [simp]:
  "js_add x NaN = NaN" "js_mul x NaN = NaN" "js_div x NaN = NaN" "js_atan2 E x NaN = NaN"
  by (cases x; simp)+

lemma js_sub_NaN [simp]: "js_sub x NaN = NaN" "js_sub NaN x = NaN"
  by (simp_all add: js_sub_def)

lemma fl_NaN [simp]: "fl_add E x NaN = NaN" "fl_add E NaN x = NaN" "fl_sub E x NaN = NaN" "fl_sub E NaN x = NaN"
  "fl_mul E x NaN = NaN" "fl_mul E NaN x = NaN" "fl_div E x NaN = NaN" "fl_div E NaN x = NaN"
  by (simp_all add: fl_add_def fl_sub_def fl_mul_def fl_div_def)




lemma js_mul_neg_neg: "js_mul (js_neg x) (js_neg x) = js_mul x x"
  by (cases x) simp_all











section \<open>Properties of the scorer\<close>

lemma exampleTimed_sel:
  "timeFromStart (exampleTimed n a b) = a" "timeToEnd (exampleTimed n a b) = b"
  "name (exampleTimed n a b) = n"
  by (simp_all add: exampleTimed_def)

lemma balanceWeight_StationFinder: "balanceWeight (StationFinder E a) = 3 / 10"
  by (simp add: StationFinder_def BALANCE_WEIGHT_def)

subsection \<open>The fields that \<open>rankStations\<close> adds\<close>

lemma scoreStation_maxTime:
  "maxTime (scoreStation this st) = max (timeFromStart st) (timeToEnd st)"
  by (simp add: scoreStation_def timed.defs scored.defs Let_def)

lemma scoreStation_timeDiff:
  "timeDiff (scoreStation this st) = \<bar>timeFromStart st - timeToEnd st\<bar>"
  by (simp add: scoreStation_def timed.defs scored.defs Let_def)

lemma scoreStation_totalTime:
  "totalTime (scoreStation this st) = timeFromStart st + timeToEnd st"
  by (simp add: scoreStation_def timed.defs scored.defs Let_def)

lemma scoreStation_score:
  "score (scoreStation this st) =
     max (timeFromStart st) (timeToEnd st)
       + \<bar>timeFromStart st - timeToEnd st\<bar> * balanceWeight this"
  by (simp add: scoreStation_def timed.defs scored.defs Let_def)

lemma scoreStation_balanceScore:
  "balanceScore (scoreStation this st) =
     js_sub (Num 100)
       (js_mul (js_div (Num \<bar>timeFromStart st - timeToEnd st\<bar>)
                  (Num (max (timeFromStart st) (timeToEnd st)))) (Num 100))"
  by (simp add: scoreStation_def timed.defs scored.defs Let_def)

lemma scoreStation_truncate: "timed.truncate (scoreStation this st) = st"
  by (simp add: scoreStation_def timed.defs scored.defs Let_def)

subsection \<open>The sort\<close>

lemma mset_js_insert: "mset (js_insert cmp x xs) = add_mset x (mset xs)"
  by (induction xs) auto

lemma mset_js_sort: "mset (js_sort cmp xs) = mset xs"
  by (induction xs) (auto simp: mset_js_insert)

lemma length_js_sort: "length (js_sort cmp xs) = length xs"
  by (metis mset_js_sort size_mset)

lemma set_js_sort: "set (js_sort cmp xs) = set xs"
  by (metis mset_js_sort set_mset_mset)

text \<open>With the comparator \<open>f a - f b\<close> on finite keys, the sort is the stable sort by key.\<close>

lemma js_insert_key:
  "js_insert (\<lambda>a b. js_sub (Num (f a)) (Num (f b))) x xs = insort_key f x xs"
  by (induction xs) (auto simp: js_sub_def)

lemma js_sort_key: "js_sort (\<lambda>a b. js_sub (Num (f a)) (Num (f b))) xs = sort_key f xs"
  by (induction xs) (auto simp: js_insert_key)

lemma rankStations_sort_key:
  "rankStations this stations = sort_key score (map (scoreStation this) stations)"
  by (simp add: rankStations_def js_sort_key)

lemma length_rankStations: "length (rankStations this stations) = length stations"
  by (simp add: rankStations_def length_js_sort)

lemma slice_0: "slice xs 0 n = take n xs"
  by (simp add: slice_def)

subsection \<open>Zero travel time\<close>

text \<open>
  Claim C1. A timed candidate with \<open>timeFromStart = timeToEnd = 0\<close> should get
  \<open>score = 0\<close> and \<open>balanceScore = 100\<close>. The source divides \<open>timeDiff\<close> by
  \<open>maxTime\<close> without a test, so at this input it computes \<open>0 / 0\<close>: the score is
  \<open>0\<close>, and the balance score is NaN, not \<open>100\<close>.
\<close>

theorem rankStations_zero_times_NaN:
  "\<exists>r. rankStations (StationFinder exactMath exampleApi) [exampleTimed ''X'' 0 0] = [r]
      \<and> timeFromStart r = 0 \<and> timeToEnd r = 0 \<and> maxTime r = 0 \<and> score r = 0
      \<and> balanceScore r = NaN"
  by (simp add: rankStations_def scoreStation_def timed.defs scored.defs exampleTimed_def
      js_sub_def)

subsection \<open>The scoring formula\<close>

text \<open>
  Claim C3. The ranked list holds exactly the scored inputs. For a timed candidate with
  \<open>timeFromStart = a\<close> and \<open>timeToEnd = b\<close> the scorer keeps the candidate and adds
  \<open>maxTime = max a b\<close>, \<open>timeDiff = |a - b|\<close>, \<open>totalTime = a + b\<close> and
  \<open>score = max a b + |a - b| * balanceWeight\<close>. At \<open>a = 300\<close>, \<open>b = 900\<close> and weight
  \<open>0.3\<close>: \<open>maxTime = 900\<close>, \<open>timeDiff = 600\<close>, \<open>score = 1080\<close>, and
  \<open>balanceScore = 100 / 3\<close>, which \<open>Math.round\<close> displays as \<open>33\<close>.
\<close>

theorem rankStations_scoring_formula:
  "mset (rankStations this stations) = image_mset (scoreStation this) (mset stations)
   \<and> timed.truncate (scoreStation this st) = st
   \<and> maxTime (scoreStation this st) = max (timeFromStart st) (timeToEnd st)
   \<and> timeDiff (scoreStation this st) = \<bar>timeFromStart st - timeToEnd st\<bar>
   \<and> totalTime (scoreStation this st) = timeFromStart st + timeToEnd st
   \<and> score (scoreStation this st) =
        max (timeFromStart st) (timeToEnd st)
          + \<bar>timeFromStart st - timeToEnd st\<bar> * balanceWeight this
   \<and> (timeFromStart st = 300 \<and> timeToEnd st = 900 \<and> balanceWeight this = 3 / 10 \<longrightarrow>
        (\<exists>r. rankStations this [st] = [r] \<and> maxTime r = 900 \<and> timeDiff r = 600
           \<and> score r = 1080 \<and> balanceScore r = Num (100 / 3)
           \<and> round (100 / 3 :: real) = 33))"
proof -
  have perm: "mset (rankStations this stations) = image_mset (scoreStation this) (mset stations)"
    by (simp add: rankStations_def mset_js_sort)
  have rnd: "round (100 / 3 :: real) = 33"
    by (simp add: round_def)
  have scenario:
    "timeFromStart st = 300 \<and> timeToEnd st = 900 \<and> balanceWeight this = 3 / 10 \<longrightarrow>
       (\<exists>r. rankStations this [st] = [r] \<and> maxTime r = 900 \<and> timeDiff r = 600
          \<and> score r = 1080 \<and> balanceScore r = Num (100 / 3)
          \<and> round (100 / 3 :: real) = 33)"
    by (simp add: rankStations_def scoreStation_maxTime scoreStation_timeDiff
        scoreStation_score scoreStation_balanceScore js_sub_def rnd)
  from perm scenario show ?thesis
    by (simp only: scoreStation_truncate scoreStation_maxTime scoreStation_timeDiff
        scoreStation_totalTime scoreStation_score simp_thms)
qed

text \<open>The scenario of claim C3 on a concrete candidate, with the configured weight.\<close>

theorem rankStations_scoring_formula_witness:
  "score (scoreStation (StationFinder exactMath exampleApi) (exampleTimed ''Q'' 300 900)) = 1080
   \<and> (\<exists>r. rankStations (StationFinder exactMath exampleApi) [exampleTimed ''Q'' 300 900] = [r]
         \<and> maxTime r = 900 \<and> timeDiff r = 600 \<and> score r = 1080
         \<and> balanceScore r = Num (100 / 3))"
  using rankStations_scoring_formula
          [of "StationFinder exactMath exampleApi" "[]" "exampleTimed ''Q'' 300 900"]
  by (auto simp: exampleTimed_sel balanceWeight_StationFinder)

subsection \<open>Monotonicity of the score\<close>

text \<open>
  Claim C7. With the same \<open>timeFromStart = a\<close> and \<open>a \<le> b1 < b2\<close>, the candidate with
  \<open>timeToEnd = b2\<close> scores strictly higher than the one with \<open>timeToEnd = b1\<close> when the
  balance weight is positive; with balance weight \<open>0\<close> the score is \<open>max a b\<close>.
\<close>

theorem score_strictly_increasing_in_timeToEnd:
  "(timeFromStart s1 = timeFromStart s2 \<and> timeFromStart s1 \<le> timeToEnd s1
      \<and> timeToEnd s1 < timeToEnd s2 \<and> 0 < balanceWeight this
     \<longrightarrow> score (scoreStation this s1) < score (scoreStation this s2))
   \<and> (balanceWeight this = 0
     \<longrightarrow> score (scoreStation this st) = max (timeFromStart st) (timeToEnd st))"
proof (intro conjI impI)
  assume h: "timeFromStart s1 = timeFromStart s2 \<and> timeFromStart s1 \<le> timeToEnd s1
      \<and> timeToEnd s1 < timeToEnd s2 \<and> 0 < balanceWeight this"
  let ?a = "timeFromStart s2" and ?b1 = "timeToEnd s1" and ?b2 = "timeToEnd s2"
  let ?w = "balanceWeight this"
  from h have 1: "score (scoreStation this s1) = ?b1 + (?b1 - ?a) * ?w"
    by (simp add: scoreStation_score max_def)
  from h have 2: "score (scoreStation this s2) = ?b2 + (?b2 - ?a) * ?w"
    by (simp add: scoreStation_score max_def)
  from h have "(?b1 - ?a) * ?w < (?b2 - ?a) * ?w" by simp
  with h 1 2 show "score (scoreStation this s1) < score (scoreStation this s2)" by linarith
next
  assume "balanceWeight this = 0"
  then show "score (scoreStation this st) = max (timeFromStart st) (timeToEnd st)"
    by (simp add: scoreStation_score)
qed

text \<open>Two candidates with \<open>a = 300\<close>, and one scored with weight \<open>0\<close>.\<close>

theorem score_strictly_increasing_in_timeToEnd_witness:
  "score (scoreStation (StationFinder exactMath exampleApi) (exampleTimed ''P'' 300 500))
     < score (scoreStation (StationFinder exactMath exampleApi) (exampleTimed ''Q'' 300 900))
   \<and> score (scoreStation \<lparr>api = exampleApi, balanceWeight = 0, engine = exactMath\<rparr> (exampleTimed ''Q'' 300 900))
       = 900"
  using score_strictly_increasing_in_timeToEnd
          [of "exampleTimed ''P'' 300 500" "exampleTimed ''Q'' 300 900" "StationFinder exactMath exampleApi"]
        score_strictly_increasing_in_timeToEnd
          [of _ _ "\<lparr>api = exampleApi, balanceWeight = 0, engine = exactMath\<rparr>" "exampleTimed ''Q'' 300 900"]
  by (simp add: exampleTimed_sel balanceWeight_StationFinder)

subsection \<open>The recommendation list\<close>

text \<open>
  Claim C4. The recommendation list \<open>rankStations(...).slice(0, MAX_RESULTS)\<close> is sorted
  by non-decreasing score; candidates of equal score keep the order in which they came
  in; the list has at most \<open>MAX_RESULTS\<close> entries, and fewer only when that is the number
  of timed candidates.
\<close>

theorem recommendations_sorted_stable_capped:
  "sorted_wrt (\<lambda>a b. score a \<le> score b) (slice (rankStations this stations) 0 MAX_RESULTS)
   \<and> (\<forall>k. prefix
          (filter (\<lambda>r. score r = k) (slice (rankStations this stations) 0 MAX_RESULTS))
          (filter (\<lambda>r. score r = k) (map (scoreStation this) stations)))
   \<and> length (slice (rankStations this stations) 0 MAX_RESULTS) \<le> MAX_RESULTS
   \<and> (length (slice (rankStations this stations) 0 MAX_RESULTS) < MAX_RESULTS
        \<longrightarrow> length (slice (rankStations this stations) 0 MAX_RESULTS) = length stations)"
proof -
  let ?ranked = "rankStations this stations"
  let ?top = "slice ?ranked 0 MAX_RESULTS"
  have top: "?top = take MAX_RESULTS ?ranked" by (rule slice_0)
  have "sorted (map score ?ranked)"
    by (simp add: rankStations_sort_key)
  then have "sorted (take MAX_RESULTS (map score ?ranked))"
    by (rule sorted_wrt_take)
  then have s: "sorted_wrt (\<lambda>a b. score a \<le> score b) ?top"
    by (simp add: top take_map sorted_map)
  have st: "prefix (filter (\<lambda>r. score r = k) ?top)
              (filter (\<lambda>r. score r = k) (map (scoreStation this) stations))" for k
  proof -
    have "prefix (filter (\<lambda>r. score r = k) ?top) (filter (\<lambda>r. score r = k) ?ranked)"
      unfolding top by (rule filter_mono_prefix) (rule take_is_prefix)
    then show ?thesis
      by (simp add: rankStations_sort_key sort_key_stable)
  qed
  have len: "length ?top = min MAX_RESULTS (length stations)"
    by (simp add: slice_0 rankStations_sort_key min.commute)
  from s st len show ?thesis by auto
qed

text \<open>Two timed candidates: both are returned, the lower score first.\<close>

theorem recommendations_sorted_stable_capped_witness:
  "sorted_wrt (\<lambda>a b. score a \<le> score b)
     (slice (rankStations (StationFinder exactMath exampleApi)
        [exampleTimed ''Q'' 300 900, exampleTimed ''P'' 500 700]) 0 MAX_RESULTS)
   \<and> length (slice (rankStations (StationFinder exactMath exampleApi)
        [exampleTimed ''Q'' 300 900, exampleTimed ''P'' 500 700]) 0 MAX_RESULTS) = 2"
  using recommendations_sorted_stable_capped
          [of "StationFinder exactMath exampleApi" "[exampleTimed ''Q'' 300 900, exampleTimed ''P'' 500 700]"]
  by (simp add: slice_0 length_rankStations MAX_RESULTS_def)

section \<open>Properties of the pipeline\<close>

subsection \<open>Travel times\<close>

lemma map_filter_append: "List.map_filter f (xs @ ys) = List.map_filter f xs @ List.map_filter f ys"
  by (simp add: List.map_filter_def)

lemma map_the_filter: "map the (filter (\<lambda>r. r \<noteq> None) (map f xs)) = List.map_filter f xs"
  by (induction xs) (auto split: option.splits)

lemma map_the_filter_ex:
  "map the (filter (\<lambda>r. \<exists>y. r = Some y) (map f xs)) = List.map_filter f xs"
  using map_the_filter [of f xs] by simp

lemma calculateTravelTimes_loop_eq:
  "calculateTravelTimes_loop this s e candidates i results =
     results @ List.map_filter (timeStation this s e) (drop i candidates)"
proof (induction this s e candidates i results rule: calculateTravelTimes_loop.induct)
  case (1 this s e candidates i results)
  show ?case
  proof (cases "i < length candidates")
    case True
    have split:
      "drop i candidates = take batchSize (drop i candidates) @ drop (i + batchSize) candidates"
      using append_take_drop_id [of batchSize "drop i candidates"] by (simp add: add.commute)
    have "calculateTravelTimes_loop this s e candidates i results =
            (results @ List.map_filter (timeStation this s e) (take batchSize (drop i candidates)))
              @ List.map_filter (timeStation this s e) (drop (i + batchSize) candidates)"
      using True "1.IH" [OF True refl refl]
      by (subst calculateTravelTimes_loop.simps) (simp add: Let_def slice_def map_the_filter_ex)
    also have "\<dots> = results @ List.map_filter (timeStation this s e) (drop i candidates)"
      by (subst (2) split) (simp only: map_filter_append append_assoc)
    finally show ?thesis .
  next
    case False
    then show ?thesis
      by (subst calculateTravelTimes_loop.simps) (simp add: List.map_filter_def)
  qed
qed

lemma calculateTravelTimes_map_filter:
  "calculateTravelTimes this s e candidates = List.map_filter (timeStation this s e) candidates"
  by (simp add: calculateTravelTimes_def calculateTravelTimes_loop_eq)

lemma timeStation_None: "timeStation this s e st = None \<longleftrightarrow> \<not> bothRoutes this s e st"
  by (auto simp: timeStation_def bothRoutes_def split: sum.splits)

lemma timeStation_Some:
  "timeStation this s e st = Some t \<Longrightarrow>
     station.truncate t = st
     \<and> getTransitRoute (api this) s (coords st) = Inr (routeFromStart t)
     \<and> getTransitRoute (api this) (coords st) e = Inr (routeToEnd t)
     \<and> timeFromStart t = duration (routeFromStart t) \<and> timeToEnd t = duration (routeToEnd t)
     \<and> distanceFromStart t = route.distance (routeFromStart t)
     \<and> distanceToEnd t = route.distance (routeToEnd t)"
  by (auto simp: timeStation_def station.defs timed.defs split: sum.splits)

lemma map_truncate_map_filter:
  "map station.truncate (List.map_filter (timeStation this s e) cs) = filter (bothRoutes this s e) cs"
proof (induction cs)
  case Nil
  then show ?case by (simp add: List.map_filter_def)
next
  case (Cons c cs)
  show ?case
  proof (cases "timeStation this s e c")
    case None
    with Cons show ?thesis
      using timeStation_None [of this s e c] by simp
  next
    case (Some t)
    with Cons show ?thesis
      using timeStation_None [of this s e c] timeStation_Some [OF Some]
      by simp
  qed
qed

lemma findMiddleStations_success:
  assumes "geocode (api this) sa = Inr s" "geocode (api this) ea = Inr e"
    "getTransitRoute (api this) s e = Inr m" "extractCandidateStations this s e m = Inr cands"
    "cands \<noteq> []"
  shows "findMiddleStations this sa ea =
     Inr \<lparr>startLocation = location.extend s (place.fields sa),
          endLocation = location.extend e (place.fields ea),
          mainRoute = m,
          recommendations = slice (rankStations this (calculateTravelTimes this s e cands)) 0 MAX_RESULTS,
          totalCandidates = length cands\<rparr>"
  using assms by (simp add: findMiddleStations_def Let_def)

lemma findMiddleStations_Inr:
  assumes "findMiddleStations this sa ea = Inr r"
  shows "\<exists>s e m cands. geocode (api this) sa = Inr s \<and> geocode (api this) ea = Inr e
      \<and> getTransitRoute (api this) s e = Inr m \<and> extractCandidateStations this s e m = Inr cands
      \<and> cands \<noteq> [] \<and> totalCandidates r = length cands
      \<and> recommendations r = slice (rankStations this (calculateTravelTimes this s e cands)) 0 MAX_RESULTS"
  using assms by (auto simp: findMiddleStations_def Let_def split: sum.splits if_splits)

lemma extract_nothing:
  assumes "allSubwayStations m = None \<or> allSubwayStations m = Some []"
   "searchNearbySubwayStations (api this) (calculateMidpoint s e) SEARCH_RADIUS = Inr []"
   "searchNearbySubwayStations (api this) s 2000 = Inr []"
   "searchNearbySubwayStations (api this) e 2000 = Inr []"
  shows "extractCandidateStations this s e m = Inr []"
  using assms by (auto simp: extractCandidateStations_def Let_def map_values_def pruneCandidates_def)

section \<open>Properties of the candidate collector\<close>
















section \<open>The example clients\<close>

lemma api_sel:
  "geocode (api (StationFinder E (routeOnlyApi names found))) ''A'' = Inr \<lparr>lng = Num 121, lat = Num 31\<rparr>"
  "geocode (api (StationFinder E (routeOnlyApi names found))) ''B'' = Inr \<lparr>lng = Num 122, lat = Num 32\<rparr>"
  "getTransitRoute (api (StationFinder E (routeOnlyApi names found)))
     \<lparr>lng = Num 121, lat = Num 31\<rparr> \<lparr>lng = Num 122, lat = Num 32\<rparr> = Inr (routeThrough names)"
  "searchNearbySubwayStations (api (StationFinder E (routeOnlyApi names found)))
     (calculateMidpoint \<lparr>lng = Num 121, lat = Num 31\<rparr> \<lparr>lng = Num 122, lat = Num 32\<rparr>) SEARCH_RADIUS = Inr found"
  "searchNearbySubwayStations (api (StationFinder E (routeOnlyApi names found)))
     \<lparr>lng = Num 121, lat = Num 31\<rparr> 2000 = Inr []"
  "searchNearbySubwayStations (api (StationFinder E (routeOnlyApi names found)))
     \<lparr>lng = Num 122, lat = Num 32\<rparr> 2000 = Inr []"
  by (simp_all add: StationFinder_def routeOnlyApi_def SEARCH_RADIUS_def)

lemma timeStation_routeCandidate:
  "timeStation (StationFinder E (routeOnlyApi names found)) s e (routeCandidate n) = None"
  by (simp add: timeStation_def StationFinder_def routeOnlyApi_def routeCandidate_def coords_def)

lemma extract_two:
  "extractCandidateStations (StationFinder exactMath (routeOnlyApi [''S1'', ''S2''] []))
     \<lparr>lng = Num 121, lat = Num 31\<rparr> \<lparr>lng = Num 122, lat = Num 32\<rparr> (routeThrough [''S1'', ''S2''])
   = Inr [routeCandidate ''S1'', routeCandidate ''S2'']"
  by (simp add: extractCandidateStations_def api_sel Let_def routeThrough_def addRoute_def map_set_def
       map_values_def pruneCandidates_def MAX_CANDIDATES_def)

lemma mid_example:
  "calculateMidpoint \<lparr>lng = Num 121, lat = Num 31\<rparr> \<lparr>lng = Num 122, lat = Num 32\<rparr>
    = \<lparr>lng = Num (243 / 2), lat = Num (63 / 2)\<rparr>"
  by (simp add: calculateMidpoint_def)

section \<open>Results on the pipeline\<close>

subsection \<open>Failed route queries\<close>

text \<open>
  Claim C8. \<open>calculateTravelTimes\<close> returns, in the order of the candidates, exactly the
  candidates for which both route queries resolve: a candidate with a rejected query is
  left out, every other candidate is there, and each carries the two routes and their
  durations. No rejected query of a candidate makes the pipeline fail: once there are
  candidates, \<open>findMiddleStations\<close> returns the ranking of whatever was timed.
\<close>

theorem calculateTravelTimes_drops_failed_keeps_order:
  "map station.truncate (calculateTravelTimes this s e candidates)
     = filter (bothRoutes this s e) candidates
   \<and> (\<forall>t \<in> set (calculateTravelTimes this s e candidates).
         getTransitRoute (api this) s (coords t) = Inr (routeFromStart t)
         \<and> getTransitRoute (api this) (coords t) e = Inr (routeToEnd t)
         \<and> timeFromStart t = duration (routeFromStart t)
         \<and> timeToEnd t = duration (routeToEnd t))
   \<and> (geocode (api this) sa = Inr s \<and> geocode (api this) ea = Inr e
        \<and> getTransitRoute (api this) s e = Inr m
        \<and> extractCandidateStations this s e m = Inr candidates \<and> candidates \<noteq> []
      \<longrightarrow> (\<exists>r. findMiddleStations this sa ea = Inr r
             \<and> recommendations r =
                 slice (rankStations this (calculateTravelTimes this s e candidates)) 0 MAX_RESULTS))"
proof -
  have kept: "map station.truncate (calculateTravelTimes this s e candidates)
      = filter (bothRoutes this s e) candidates"
    by (simp add: calculateTravelTimes_map_filter map_truncate_map_filter)
  have routes: "\<forall>t \<in> set (calculateTravelTimes this s e candidates).
         getTransitRoute (api this) s (coords t) = Inr (routeFromStart t)
         \<and> getTransitRoute (api this) (coords t) e = Inr (routeToEnd t)
         \<and> timeFromStart t = duration (routeFromStart t)
         \<and> timeToEnd t = duration (routeToEnd t)"
  proof
    fix t assume "t \<in> set (calculateTravelTimes this s e candidates)"
    then obtain c where c: "timeStation this s e c = Some t"
      by (auto simp: calculateTravelTimes_map_filter List.map_filter_def)
    from timeStation_Some [OF c] have "coords t = coords c"
      by (auto simp: coords_def station.defs)
    with timeStation_Some [OF c]
    show "getTransitRoute (api this) s (coords t) = Inr (routeFromStart t)
         \<and> getTransitRoute (api this) (coords t) e = Inr (routeToEnd t)
         \<and> timeFromStart t = duration (routeFromStart t)
         \<and> timeToEnd t = duration (routeToEnd t)" by simp
  qed
  have pipeline: "geocode (api this) sa = Inr s \<and> geocode (api this) ea = Inr e
        \<and> getTransitRoute (api this) s e = Inr m
        \<and> extractCandidateStations this s e m = Inr candidates \<and> candidates \<noteq> []
      \<longrightarrow> (\<exists>r. findMiddleStations this sa ea = Inr r
             \<and> recommendations r =
                 slice (rankStations this (calculateTravelTimes this s e candidates)) 0 MAX_RESULTS)"
    by (auto simp: findMiddleStations_success)
  from kept routes pipeline show ?thesis by (intro conjI)
qed

text \<open>
  Four candidates of which two have no coordinates; and a run of the pipeline in which
  the candidate from the route cannot be timed and the one from the search can.
\<close>

lemma timeStation_found:
  "timeStation (StationFinder E (routeOnlyApi names found)) \<lparr>lng = Num 121, lat = Num 31\<rparr>
     \<lparr>lng = Num 122, lat = Num 32\<rparr> ((exampleStation n x y)\<lparr>source := src\<rparr>)
   = Some (station.extend ((exampleStation n x y)\<lparr>source := src\<rparr>)
        (timed.fields 1800 1800 9000 9000 (routeThrough names) (routeThrough names)))"
  by (simp add: timeStation_def StationFinder_def routeOnlyApi_def exampleStation_def coords_def
      routeThrough_def)

lemma extract_mixed:
  "extractCandidateStations (StationFinder exactMath (routeOnlyApi [''S1''] [exampleStation ''N'' 121 31]))
     \<lparr>lng = Num 121, lat = Num 31\<rparr> \<lparr>lng = Num 122, lat = Num 32\<rparr> (routeThrough [''S1''])
   = Inr [routeCandidate ''S1'', (exampleStation ''N'' 121 31)\<lparr>source := Some Nearby\<rparr>]"
  by (simp add: extractCandidateStations_def api_sel Let_def routeThrough_def addRoute_def
      addFound_def map_set_def map_has_def map_values_def pruneCandidates_def MAX_CANDIDATES_def
      exampleStation_def routeCandidate_def)

theorem calculateTravelTimes_drops_failed_keeps_order_witness:
  "map station.truncate
     (calculateTravelTimes (StationFinder exactMath (routeOnlyApi [] []))
        \<lparr>lng = Num 121, lat = Num 31\<rparr> \<lparr>lng = Num 122, lat = Num 32\<rparr>
        [routeCandidate ''S1'', exampleStation ''N'' 121 31, routeCandidate ''S2'',
         exampleStation ''K'' 122 32])
     = [exampleStation ''N'' 121 31, exampleStation ''K'' 122 32]
   \<and> (\<exists>r. findMiddleStations
             (StationFinder exactMath (routeOnlyApi [''S1''] [exampleStation ''N'' 121 31])) ''A'' ''B'' = Inr r
         \<and> map name (recommendations r) = [''N''])"
proof -
  have 1: "map station.truncate
     (calculateTravelTimes (StationFinder exactMath (routeOnlyApi [] []))
        \<lparr>lng = Num 121, lat = Num 31\<rparr> \<lparr>lng = Num 122, lat = Num 32\<rparr>
        [routeCandidate ''S1'', exampleStation ''N'' 121 31, routeCandidate ''S2'',
         exampleStation ''K'' 122 32])
     = [exampleStation ''N'' 121 31, exampleStation ''K'' 122 32]"
    using calculateTravelTimes_drops_failed_keeps_order
            [of "StationFinder exactMath (routeOnlyApi [] [])"
                "\<lparr>lng = Num 121, lat = Num 31\<rparr>" "\<lparr>lng = Num 122, lat = Num 32\<rparr>"
                "[routeCandidate ''S1'', exampleStation ''N'' 121 31, routeCandidate ''S2'',
                  exampleStation ''K'' 122 32]", THEN conjunct1]
    by (simp add: bothRoutes_def StationFinder_def routeOnlyApi_def routeCandidate_def
        exampleStation_def coords_def)
  let ?F = "StationFinder exactMath (routeOnlyApi [''S1''] [exampleStation ''N'' 121 31])"
  let ?s = "\<lparr>lng = Num 121, lat = Num 31\<rparr>" and ?e = "\<lparr>lng = Num 122, lat = Num 32\<rparr>"
  let ?cs = "[routeCandidate ''S1'', (exampleStation ''N'' 121 31)\<lparr>source := Some Nearby\<rparr>]"
  have hyp: "geocode (api ?F) ''A'' = Inr ?s \<and> geocode (api ?F) ''B'' = Inr ?e
      \<and> getTransitRoute (api ?F) ?s ?e = Inr (routeThrough [''S1''])
      \<and> extractCandidateStations ?F ?s ?e (routeThrough [''S1'']) = Inr ?cs \<and> ?cs \<noteq> []"
    by (intro conjI api_sel extract_mixed) simp
  from calculateTravelTimes_drops_failed_keeps_order
         [of ?F ?s ?e ?cs "''A''" "''B''" "routeThrough [''S1'']", THEN conjunct2, THEN conjunct2,
          THEN mp, OF hyp]
  obtain r where r: "findMiddleStations ?F ''A'' ''B'' = Inr r"
    "recommendations r = slice (rankStations ?F (calculateTravelTimes ?F ?s ?e ?cs)) 0 MAX_RESULTS"
    by (elim exE conjE)
  have "calculateTravelTimes ?F ?s ?e ?cs
      = [station.extend ((exampleStation ''N'' 121 31)\<lparr>source := Some Nearby\<rparr>)
           (timed.fields 1800 1800 9000 9000 (routeThrough [''S1'']) (routeThrough [''S1'']))]"
    by (simp add: calculateTravelTimes_map_filter timeStation_routeCandidate timeStation_found)
  then have nm: "map name (recommendations r) = [''N'']"
    unfolding r(2)
    by (simp add: rankStations_def scoreStation_def exampleStation_def station.defs timed.defs
        scored.defs slice_def MAX_RESULTS_def Let_def)
  have 2: "\<exists>r. findMiddleStations ?F ''A'' ''B'' = Inr r \<and> map name (recommendations r) = [''N'']"
    using r(1) nm by auto
  from 1 2 show ?thesis by (rule conjI)
qed

subsection \<open>No candidate\<close>

text \<open>
  Claim C9. When the main route names no subway station and the three searches return
  no station, the candidate collector returns the empty list and \<open>findMiddleStations\<close>
  throws its own error, here \<open>NoCandidatesFound\<close>. When \<open>findMiddleStations\<close> returns a
  result, the candidate list it worked on is not empty.
\<close>

theorem findMiddleStations_no_candidates:
  "(geocode (api this) sa = Inr s \<and> geocode (api this) ea = Inr e
      \<and> getTransitRoute (api this) s e = Inr m
      \<and> (allSubwayStations m = None \<or> allSubwayStations m = Some [])
      \<and> searchNearbySubwayStations (api this) (calculateMidpoint s e) SEARCH_RADIUS = Inr []
      \<and> searchNearbySubwayStations (api this) s 2000 = Inr []
      \<and> searchNearbySubwayStations (api this) e 2000 = Inr []
     \<longrightarrow> extractCandidateStations this s e m = Inr []
         \<and> findMiddleStations this sa ea = Inl NoCandidatesFound)
   \<and> (findMiddleStations this sa ea = Inr r
     \<longrightarrow> (\<exists>s e m cands. geocode (api this) sa = Inr s \<and> geocode (api this) ea = Inr e
           \<and> getTransitRoute (api this) s e = Inr m
           \<and> extractCandidateStations this s e m = Inr cands
           \<and> cands \<noteq> [] \<and> totalCandidates r = length cands))"
proof (intro conjI impI)
  assume h: "geocode (api this) sa = Inr s \<and> geocode (api this) ea = Inr e
      \<and> getTransitRoute (api this) s e = Inr m
      \<and> (allSubwayStations m = None \<or> allSubwayStations m = Some [])
      \<and> searchNearbySubwayStations (api this) (calculateMidpoint s e) SEARCH_RADIUS = Inr []
      \<and> searchNearbySubwayStations (api this) s 2000 = Inr []
      \<and> searchNearbySubwayStations (api this) e 2000 = Inr []"
  then show x: "extractCandidateStations this s e m = Inr []"
    by (intro extract_nothing) simp_all
  with h show "findMiddleStations this sa ea = Inl NoCandidatesFound"
    by (simp add: findMiddleStations_def)
next
  assume "findMiddleStations this sa ea = Inr r"
  from findMiddleStations_Inr [OF this]
  show "\<exists>s e m cands. geocode (api this) sa = Inr s \<and> geocode (api this) ea = Inr e
           \<and> getTransitRoute (api this) s e = Inr m
           \<and> extractCandidateStations this s e m = Inr cands
           \<and> cands \<noteq> [] \<and> totalCandidates r = length cands" by blast
qed


text \<open>A client that finds no station at all, and one whose route names two stations.\<close>

theorem findMiddleStations_no_candidates_witness:
  "findMiddleStations (StationFinder exactMath exampleApi) ''A'' ''B'' = Inl NoCandidatesFound
   \<and> (\<exists>r. findMiddleStations (StationFinder exactMath (routeOnlyApi [''S1'', ''S2''] [])) ''A'' ''B'' = Inr r
         \<and> totalCandidates r = 2)"
proof -
  have 1: "findMiddleStations (StationFinder exactMath exampleApi) ''A'' ''B'' = Inl NoCandidatesFound"
    using findMiddleStations_no_candidates
            [of "StationFinder exactMath exampleApi" "''A''" "\<lparr>lng = Num 0, lat = Num 0\<rparr>" "''B''"
                "\<lparr>lng = Num 0, lat = Num 0\<rparr>" "exampleRoute 0"]
    by (simp add: StationFinder_def exampleApi_def exampleRoute_def)
  let ?F = "StationFinder exactMath (routeOnlyApi [''S1'', ''S2''] [])"
  from findMiddleStations_success [OF api_sel(1,2,3) extract_two]
  obtain r where r: "findMiddleStations ?F ''A'' ''B'' = Inr r" by simp
  from findMiddleStations_no_candidates [of ?F "''A''" _ "''B''" _ _ r] r
  obtain s e m cands where "geocode (api ?F) ''A'' = Inr s" "geocode (api ?F) ''B'' = Inr e"
    "getTransitRoute (api ?F) s e = Inr m" "extractCandidateStations ?F s e m = Inr cands"
    "totalCandidates r = length cands"
    by blast
  with api_sel(1,2,3) [of exactMath "[''S1'', ''S2'']" "[]"] extract_two have "totalCandidates r = 2"
    by simp
  with 1 r show ?thesis by blast
qed

subsection \<open>No timed candidate\<close>

text \<open>
  Claim C2. With a non-empty candidate list of which no candidate can be timed, the
  pipeline should fail with the error it throws when there is no candidate. The source
  tests the length of the candidate list before the timing and tests nothing after it.
  Here the main route names two stations and the searches find none, so both candidates
  come from the route and have no coordinates, and the client rejects every route query
  to or from them: \<open>findMiddleStations\<close> returns a result, with an empty recommendation
  list and \<open>totalCandidates = 2\<close>.
\<close>

theorem findMiddleStations_returns_empty_recommendations:
  "extractCandidateStations (StationFinder exactMath (routeOnlyApi [''S1'', ''S2''] []))
     \<lparr>lng = Num 121, lat = Num 31\<rparr> \<lparr>lng = Num 122, lat = Num 32\<rparr> (routeThrough [''S1'', ''S2''])
     = Inr [routeCandidate ''S1'', routeCandidate ''S2'']
   \<and> calculateTravelTimes (StationFinder exactMath (routeOnlyApi [''S1'', ''S2''] []))
       \<lparr>lng = Num 121, lat = Num 31\<rparr> \<lparr>lng = Num 122, lat = Num 32\<rparr>
       [routeCandidate ''S1'', routeCandidate ''S2''] = []
   \<and> (\<exists>r. findMiddleStations (StationFinder exactMath (routeOnlyApi [''S1'', ''S2''] [])) ''A'' ''B'' = Inr r
         \<and> recommendations r = [] \<and> totalCandidates r = 2)"
proof -
  have t: "calculateTravelTimes (StationFinder exactMath (routeOnlyApi [''S1'', ''S2''] []))
       \<lparr>lng = Num 121, lat = Num 31\<rparr> \<lparr>lng = Num 122, lat = Num 32\<rparr>
       [routeCandidate ''S1'', routeCandidate ''S2''] = []"
    by (simp add: calculateTravelTimes_map_filter timeStation_routeCandidate)
  have "findMiddleStations (StationFinder exactMath (routeOnlyApi [''S1'', ''S2''] [])) ''A'' ''B'' =
     Inr \<lparr>startLocation = location.extend \<lparr>lng = Num 121, lat = Num 31\<rparr> (place.fields ''A''),
          endLocation = location.extend \<lparr>lng = Num 122, lat = Num 32\<rparr> (place.fields ''B''),
          mainRoute = routeThrough [''S1'', ''S2''],
          recommendations = [], totalCandidates = 2\<rparr>"
    by (simp add: findMiddleStations_success [OF api_sel(1,2,3) extract_two] t rankStations_def
        slice_def)
  with t extract_two show ?thesis by simp
qed

section \<open>The candidate list\<close>

subsection \<open>One candidate per name\<close>





section \<open>The distance\<close>

lemma atan2_nonneg:
  assumes "0 \<le> y" "0 \<le> x"
  shows "0 \<le> atan2 y x"
proof (cases "0 < x")
  case True
  with assms have "0 \<le> y / x" by simp
  then have "0 \<le> arctan (y / x)" by (simp only: zero_le_arctan_iff)
  with True show ?thesis by (simp add: atan2_def)
next
  case False
  with assms have "x = 0" by simp
  with assms show ?thesis by (simp add: atan2_def)
qed

lemma regular_exactMath: "regular exactMath"
  by (simp add: regular_def exactMath_def atan2_nonneg) (simp add: atan2_def)

lemma dist_route: "calculateDistance this (routeCandidate n) mid = NaN"
  by (simp add: calculateDistance_def routeCandidate_def Let_def)

lemma calculateDistance_same:
  assumes "regular (engine this)"
    and "lng loc1 = Num x" "lat loc1 = Num y" "lng loc2 = Num x" "lat loc2 = Num y"
  shows "calculateDistance this loc1 loc2 = Num 0"
proof -
  let ?E = "engine this"
  from assms(1) have z: "round64 ?E 0 = 0" "Math_sin ?E 0 = 0"
    unfolding regular_def by (metis minus_zero neg_equal_zero)+
  from assms(1) have p: "round64 ?E 1 = 1" "Math_sqrt ?E 0 = 0" "Math_sqrt ?E 1 = 1"
    "Math_atan2 ?E 0 1 = 0"
    unfolding regular_def by simp_all
  show ?thesis
    by (simp add: calculateDistance_def Let_def assms(2-) fl_add_def fl_sub_def fl_mul_def
        fl_div_def js_sub_def js_PI_def z p)
qed









text \<open>
  With an error in the engine the quantity \<open>a\<close> leaves \<open>[0, 1]\<close>: between two antipodal
  points on the equator the engine with the large cosine computes \<open>a > 1\<close>, and the
  distance is NaN although all four coordinates are finite.
\<close>

lemma regular_overshootMath: "regular overshootMath"
  by (simp add: regular_def overshootMath_def atan2_nonneg) (simp add: atan2_def)

lemma calculateDistance_NaN_at_antipodes:
  "calculateDistance (StationFinder overshootMath a)
     \<lparr>lng = Num 0, lat = Num 0\<rparr> \<lparr>lng = Num 180, lat = Num 0\<rparr> = NaN"
  by (simp add: calculateDistance_def Let_def StationFinder_def overshootMath_def fl_add_def
      fl_sub_def fl_mul_def fl_div_def js_sub_def js_PI_def)

subsection \<open>Symmetry and sign\<close>






subsection \<open>Pruning when every distance is a number\<close>

lemma js_insert_cong:
  "\<forall>y \<in> set xs. js_gt0 (cmp x y) = js_gt0 (cmp' x y) \<Longrightarrow> js_insert cmp x xs = js_insert cmp' x xs"
  by (induction xs) auto

lemma js_sort_cong:
  "\<forall>x \<in> set xs. \<forall>y \<in> set xs. js_gt0 (cmp x y) = js_gt0 (cmp' x y) \<Longrightarrow>
   js_sort cmp xs = js_sort cmp' xs"
proof (induction xs)
  case Nil
  then show ?case by simp
next
  case (Cons x xs)
  then have "js_sort cmp xs = js_sort cmp' xs" by simp
  moreover have "js_insert cmp x (js_sort cmp' xs) = js_insert cmp' x (js_sort cmp' xs)"
    using Cons.prems by (intro js_insert_cong) (simp add: set_js_sort)
  ultimately show ?case by simp
qed


lemma calculateDistance_Num:
  assumes "js_isFinite (calculateDistance this st mid)"
  shows "calculateDistance this st mid = Num (midKey this mid st)"
  using assms by (cases "calculateDistance this st mid") (simp_all add: midKey_def)

lemma pruneCandidates_closest:
  assumes "\<forall>c \<in> set cs. js_isFinite (calculateDistance this c mid)"
    "length cs > MAX_CANDIDATES"
  shows "pruneCandidates this mid cs =
     take MAX_CANDIDATES (sort_key (midKey this mid)
       (map (\<lambda>st. st\<lparr>distanceToMid := Some (calculateDistance this st mid)\<rparr>) cs))"
proof -
  let ?ds = "map (\<lambda>st. st\<lparr>distanceToMid := Some (calculateDistance this st mid)\<rparr>) cs"
  have key: "toNumber (distanceToMid d) = Num (midKey this mid d)" if "d \<in> set ?ds" for d
  proof -
    from that obtain c where c: "c \<in> set cs"
      and d: "d = c\<lparr>distanceToMid := Some (calculateDistance this c mid)\<rparr>"
      by auto
    from c assms have "js_isFinite (calculateDistance this c mid)" by blast
    from calculateDistance_Num [OF this]
    have "calculateDistance this c mid = Num (midKey this mid c)" .
    moreover have "midKey this mid d = midKey this mid c"
      by (simp add: d midKey_def calculateDistance_def)
    ultimately show ?thesis by (simp add: d toNumber_def)
  qed
  have "js_sort (\<lambda>a b. js_sub (toNumber (distanceToMid a)) (toNumber (distanceToMid b))) ?ds
      = js_sort (\<lambda>a b. js_sub (Num (midKey this mid a)) (Num (midKey this mid b))) ?ds"
    by (rule js_sort_cong) (simp add: key del: set_map)
  then show ?thesis
    using assms(2) by (simp add: pruneCandidates_def js_sort_key)
qed

lemma pruneCandidates_sorted_closest:
  assumes "\<forall>c \<in> set cs. js_isFinite (calculateDistance this c mid)"
    "length cs > MAX_CANDIDATES"
  shows "sorted (map (midKey this mid) (pruneCandidates this mid cs))
     \<and> length (pruneCandidates this mid cs) = MAX_CANDIDATES
     \<and> (\<forall>a \<in> set (pruneCandidates this mid cs).
          \<forall>b \<in> set (drop MAX_CANDIDATES (sort_key (midKey this mid)
                 (map (\<lambda>st. st\<lparr>distanceToMid := Some (calculateDistance this st mid)\<rparr>) cs))).
            midKey this mid a \<le> midKey this mid b)"
proof -
  let ?srt = "sort_key (midKey this mid)
       (map (\<lambda>st. st\<lparr>distanceToMid := Some (calculateDistance this st mid)\<rparr>) cs)"
  have p: "pruneCandidates this mid cs = take MAX_CANDIDATES ?srt"
    using assms by (rule pruneCandidates_closest)
  have "sorted (map (midKey this mid) (take MAX_CANDIDATES ?srt @ drop MAX_CANDIDATES ?srt))"
    by simp
  then have "sorted (map (midKey this mid) (take MAX_CANDIDATES ?srt))
      \<and> (\<forall>a \<in> set (take MAX_CANDIDATES ?srt). \<forall>b \<in> set (drop MAX_CANDIDATES ?srt).
            midKey this mid a \<le> midKey this mid b)"
    unfolding map_append sorted_append by auto
  moreover have "length (take MAX_CANDIDATES ?srt) = MAX_CANDIDATES"
    using assms(2) by simp
  ultimately show ?thesis unfolding p by simp
qed

subsection \<open>Pruning candidates without coordinates\<close>

lemma engine_StationFinder: "engine (StationFinder E a) = E"
  by (simp add: StationFinder_def)

lemma dist_mid:
  "regular (engine this) \<Longrightarrow> lng st = Num (243 / 2) \<Longrightarrow> lat st = Num (63 / 2) \<Longrightarrow>
   calculateDistance this st \<lparr>lng = Num (243 / 2), lat = Num (63 / 2)\<rparr> = Num 0"
  by (rule calculateDistance_same [of _ _ "243 / 2" "63 / 2"]) simp_all

lemma regular_engine_drops_station_at_midpoint:
  assumes "regular E"
  shows "extractCandidateStations
     (StationFinder E (routeOnlyApi tenNames [exampleStation ''M'' (243 / 2) (63 / 2)]))
     \<lparr>lng = Num 121, lat = Num 31\<rparr> \<lparr>lng = Num 122, lat = Num 32\<rparr> (routeThrough tenNames)
     = Inr (map (\<lambda>n. (routeCandidate n)\<lparr>distanceToMid := Some NaN\<rparr>) tenNames)
   \<and> calculateDistance
        (StationFinder E (routeOnlyApi tenNames [exampleStation ''M'' (243 / 2) (63 / 2)]))
        (exampleStation ''M'' (243 / 2) (63 / 2))
        (calculateMidpoint \<lparr>lng = Num 121, lat = Num 31\<rparr> \<lparr>lng = Num 122, lat = Num 32\<rparr>) = Num 0"
proof -
  let ?F = "StationFinder E (routeOnlyApi tenNames [exampleStation ''M'' (243 / 2) (63 / 2)])"
  have m: "map_values (merged tenNames [exampleStation ''M'' (243 / 2) (63 / 2)] [])
      = map routeCandidate tenNames
          @ [exampleStation ''M'' (243 / 2) (63 / 2)\<lparr>source := Some Nearby\<rparr>]"
    by (simp add: merged_def tenNames_def addRoute_def addFound_def map_set_def map_has_def
        map_values_def exampleStation_def)
  have p: "pruneCandidates ?F \<lparr>lng = Num (243 / 2), lat = Num (63 / 2)\<rparr>
       (map routeCandidate tenNames
          @ [exampleStation ''M'' (243 / 2) (63 / 2)\<lparr>source := Some Nearby\<rparr>])
     = map (\<lambda>n. (routeCandidate n)\<lparr>distanceToMid := Some NaN\<rparr>) tenNames"
    by (simp add: pruneCandidates_def tenNames_def MAX_CANDIDATES_def dist_route dist_mid
        toNumber_def exampleStation_def engine_StationFinder assms)
  have "extractCandidateStations ?F
       \<lparr>lng = Num 121, lat = Num 31\<rparr> \<lparr>lng = Num 122, lat = Num 32\<rparr> (routeThrough tenNames)
     = Inr (pruneCandidates ?F \<lparr>lng = Num (243 / 2), lat = Num (63 / 2)\<rparr>
        (map_values (merged tenNames [exampleStation ''M'' (243 / 2) (63 / 2)] [])))"
    by (simp add: extractCandidateStations_def api_sel Let_def merged_def routeThrough_def
        mid_example [symmetric])
  then have 1: "extractCandidateStations ?F
       \<lparr>lng = Num 121, lat = Num 31\<rparr> \<lparr>lng = Num 122, lat = Num 32\<rparr> (routeThrough tenNames)
     = Inr (map (\<lambda>n. (routeCandidate n)\<lparr>distanceToMid := Some NaN\<rparr>) tenNames)"
    by (simp only: m p)
  have 2: "calculateDistance ?F (exampleStation ''M'' (243 / 2) (63 / 2))
        (calculateMidpoint \<lparr>lng = Num 121, lat = Num 31\<rparr> \<lparr>lng = Num 122, lat = Num 32\<rparr>) = Num 0"
    by (simp add: mid_example dist_mid exampleStation_def engine_StationFinder assms)
  from 1 2 show ?thesis by (rule conjI)
qed


text \<open>
  Claim C6. When there are more than \<open>MAX_CANDIDATES\<close> candidates, the collector should
  keep the \<open>MAX_CANDIDATES\<close> candidates closest to the midpoint, by ascending Haversine
  distance. A candidate from the route has no coordinates, so its distance is NaN, and
  the comparator returns NaN against it, which the sort reads as equal. Here the route
  names ten stations and the midpoint search finds the station \<open>M\<close> at the midpoint
  itself, at distance \<open>0\<close>. Every comparison involves a route candidate and returns
  NaN, so for the sort all eleven are equal and it leaves them in their order of
  insertion: the collector keeps the ten route candidates, each with
  \<open>distanceToMid = NaN\<close>, and drops \<open>M\<close>. The same holds on every regular engine
  (\<open>regular_engine_drops_station_at_midpoint\<close>).
\<close>

theorem pruneCandidates_drops_station_at_midpoint:
  "extractCandidateStations
     (StationFinder exactMath (routeOnlyApi tenNames [exampleStation ''M'' (243 / 2) (63 / 2)]))
     \<lparr>lng = Num 121, lat = Num 31\<rparr> \<lparr>lng = Num 122, lat = Num 32\<rparr> (routeThrough tenNames)
     = Inr (map (\<lambda>n. (routeCandidate n)\<lparr>distanceToMid := Some NaN\<rparr>) tenNames)
   \<and> calculateDistance
        (StationFinder exactMath (routeOnlyApi tenNames [exampleStation ''M'' (243 / 2) (63 / 2)]))
        (exampleStation ''M'' (243 / 2) (63 / 2))
        (calculateMidpoint \<lparr>lng = Num 121, lat = Num 31\<rparr> \<lparr>lng = Num 122, lat = Num 32\<rparr>) = Num 0"
  by (rule regular_engine_drops_station_at_midpoint [OF regular_exactMath])

end
